theory Spec2Isabelle
  imports Main "HOL-Library.Sublist"
begin

section \<open>The reconciliation script \<^verbatim>\<open>app.py\<close>\<close>

text \<open>
  The script is a single top-to-bottom run: it looks up the API key in the secrets, waits
  for an uploaded workbook, reads its two sheets, sends both as CSV inside a fixed prompt to
  a chat-completion service, extracts CSV text from the answer, parses it and offers a
  workbook with three sheets for download. The spreadsheet library and the service are
  outside the script, so they are parameters of the model; every \<^verbatim>\<open>st.stop()\<close>
  and every uncaught exception is an outcome of its own.
\<close>

subsection \<open>Secrets\<close>

text \<open>
  A secret is a string or a table of strings. \<^verbatim>\<open>k in v\<close> is key membership on a
  table and substring search on a string; \<^verbatim>\<open>v[k]\<close> on a string with a string
  index raises \<^verbatim>\<open>TypeError\<close>, on a table without the key \<^verbatim>\<open>KeyError\<close>.
  \<open>WriterError\<close> stands for whatever exception the writing of the workbook raises.
\<close>

datatype secret = Str string | Table "(string \<times> string) list"

type_synonym secrets = "string \<rightharpoonup> secret"

datatype exn = KeyError | TypeError | WriterError

fun contains :: "secret \<Rightarrow> string \<Rightarrow> bool" where
  "contains (Str v) k = sublist k v"
| "contains (Table t) k = (map_of t k \<noteq> None)"

fun item :: "secret \<Rightarrow> string \<Rightarrow> exn + string" where
  "item (Str v) k = Inl TypeError"
| "item (Table t) k = (case map_of t k of None \<Rightarrow> Inl KeyError | Some v \<Rightarrow> Inr v)"

text \<open>\<^verbatim>\<open>st.secrets["openai"]["api_key"]\<close>, as line 25 and line 102 evaluate it.\<close>

definition openai_api_key :: "secrets \<Rightarrow> exn + string" where
  "openai_api_key s = (case s ''openai'' of None \<Rightarrow> Inl KeyError | Some v \<Rightarrow> item v ''api_key'')"

subsection \<open>Outcomes\<close>

datatype ui_error =
    KeyNotFound
  | SheetsUnreadable
  | ApiError
  | NoCsvFound string
  | CsvParseFailed string

datatype log_msg =
    FileUploaded
  | ReadingSheets
  | SheetsConverted
  | SendingToGPT
  | ResponseReceived
  | ParsedToDataFrame
  | GeneratingExcel

datatype halt = Stop ui_error | Crash exn

text \<open>
  \<^verbatim>\<open>get_openai_api_key\<close> (lines 23 to 30). The first branch returns the table entry,
  the second the top-level secret as it is, the third reports and stops.
\<close>

definition get_openai_api_key :: "secrets \<Rightarrow> halt + secret" where
  "get_openai_api_key s =
     (if s ''openai'' \<noteq> None \<and> contains (the (s ''openai'')) ''api_key'' then
        (case openai_api_key s of Inl e \<Rightarrow> Inl (Crash e) | Inr k \<Rightarrow> Inr (Str k))
      else if s ''OPENAI_API_KEY'' \<noteq> None then Inr (the (s ''OPENAI_API_KEY''))
      else Inl (Stop KeyNotFound))"

subsection \<open>Python string operations used by the script\<close>

text \<open>
  Characters are the code points below 256. \<^verbatim>\<open>str.isspace\<close> and the pattern
  \<^verbatim>\<open>\s\<close> hold of TAB, LF, VT, FF, CR, FS, GS, RS, US, space, NEL and NBSP there;
  \<^verbatim>\<open>str.splitlines\<close> breaks at LF, VT, FF, CR (CR LF being one break), FS, GS, RS
  and NEL, and yields no empty last line.
\<close>

definition isspace :: "char \<Rightarrow> bool" where
  "isspace c = (of_char c \<in> {9, 10, 11, 12, 13, 28, 29, 30, 31, 32, 133, 160 :: nat})"

definition is_linebreak :: "char \<Rightarrow> bool" where
  "is_linebreak c = (of_char c \<in> {10, 11, 12, 13, 28, 29, 30, 133 :: nat})"

definition strip :: "string \<Rightarrow> string" where
  "strip s = rev (dropWhile isspace (rev (dropWhile isspace s)))"

fun splitlines_acc :: "string \<Rightarrow> string \<Rightarrow> string list" where
  "splitlines_acc cur [] = (if cur = [] then [] else [rev cur])"
| "splitlines_acc cur (c # cs) =
     (if c = CHR 0x0D \<and> cs \<noteq> [] \<and> hd cs = CHR 0x0A then rev cur # splitlines_acc [] (tl cs)
      else if is_linebreak c then rev cur # splitlines_acc [] cs
      else splitlines_acc (c # cur) cs)"

definition splitlines :: "string \<Rightarrow> string list" where
  "splitlines s = splitlines_acc [] s"

definition startswith :: "string \<Rightarrow> string \<Rightarrow> bool" where
  "startswith s p = prefix p s"

fun join :: "string \<Rightarrow> string list \<Rightarrow> string" where
  "join sep [] = []"
| "join sep [x] = x"
| "join sep (x # y # ys) = x @ sep @ join sep (y # ys)"

text \<open>The text after, and the text before, the first occurrence of a pattern.\<close>

fun after_first :: "string \<Rightarrow> string \<Rightarrow> string option" where
  "after_first p [] = (if p = [] then Some [] else None)"
| "after_first p (c # cs) =
     (if prefix p (c # cs) then Some (drop (length p) (c # cs)) else after_first p cs)"

fun before_first :: "string \<Rightarrow> string \<Rightarrow> string option" where
  "before_first p [] = (if p = [] then Some [] else None)"
| "before_first p (c # cs) =
     (if prefix p (c # cs) then Some []
      else map_option ((#) c) (before_first p cs))"

subsection \<open>Extracting the CSV text from the answer\<close>

text \<open>
  \<^verbatim>\<open>re.search(r"```csv\s*(.*?)```", gpt_output, re.DOTALL)\<close> (lines 117 and 118):
  the leftmost opening fence, the longest run of white space after it, then the shortest
  text up to the next three backticks, which is group 1. White space holds no backtick, so
  a closing fence after any later opening fence also closes the first one, and the search
  succeeds exactly when this one does.
\<close>

definition csv_search :: "string \<Rightarrow> string option" where
  "csv_search out =
     (case after_first ''```csv'' out of
        None \<Rightarrow> None
      | Some r \<Rightarrow> before_first ''```'' (dropWhile isspace r))"

text \<open>The fallback of lines 124 to 135: from the first line that starts with \<^verbatim>\<open>No,\<close>.\<close>

definition csv_fallback :: "string \<Rightarrow> string option" where
  "csv_fallback out =
     (let lines = splitlines (strip out) in
      case dropWhile (\<lambda>line. \<not> startswith (strip line) ''No,'') lines of
        [] \<Rightarrow> None
      | l # ls \<Rightarrow> Some (join [CHR 0x0A] (l # ls)))"

definition extract_csv :: "string \<Rightarrow> ui_error + string" where
  "extract_csv out =
     (case csv_search out of
        Some g \<Rightarrow> Inr (strip g)
      | None \<Rightarrow>
          (case csv_fallback out of
             Some t \<Rightarrow> Inr t
           | None \<Rightarrow> Inl (NoCsvFound out)))"

subsection \<open>The prompt\<close>

definition nl :: string where
  "nl = [CHR 0x0A]"

definition prompt_rules :: "string list" where
  \<open>prompt_rules =
   [''You are a finance assistant that performs automated reconciliation.'',
    '''',
    ''Match entries from the Journal sheet with combinations of transactions from the EDW sheet using these rules:'',
    '''',
    ''- Match on Account Number, Tran Code, and Journal Date = Process Date'',
    ''- Match absolute values of EDW Amounts that sum up to Journal Debit Amount'',
    ''- For each match:'',
    ''  - Create one **CR row** for the Journal entry:'',
    ''    - Positive amount'',
    ''    - Ref 3 = Journal Description'',
    ''    - Ref 4 = GL Code'',
    ''  - Create one or more **DR rows** for the matched EDW transactions:'',
    ''    - Use **original negative sign** from EDW '' @ [CHR 0x22] @ ''Amount (INR)'' @ [CHR 0x22],
    ''    - Ref 1 = EDW Transaction ID'',
    ''    - Ref 2 = Ref Code'',
    ''    - Ref 3 = EDW Description'',
    '''',
    ''Make sure that:'',
    ''- Amount in DR lines is **negative**'',
    ''- Amount in CR lines is **positive**'',
    ''- All amounts are in INR'',
    ''- Bus Entity = India_BU'',
    ''- Rule = AutoRule <Tran Code>'',
    ''- Status = Matched (if matched else UNMATCHED)'',
    '''',
    ''Output the final reconciliation as a **CSV** with columns:'',
    '''',
    ''No,Item Type,Reconciliation,SIDE,Value Date,Ref 1,Amount,Amt CCY,Bus Entity,Stmt Date,Rule,ENTRY DATE,Ref 2,Ref 3,Ref 4,Tran Code,Status'',
    '''',
    ''### EDW Sheet CSV:'']\<close>

definition prompt :: "string \<Rightarrow> string \<Rightarrow> string" where
  "prompt edw_csv journal_csv =
     nl @ join nl prompt_rules @ nl @ edw_csv @ nl @ nl @ ''### Journal Sheet CSV:'' @ nl
       @ journal_csv @ nl"

subsection \<open>The collaborators and the run\<close>

text \<open>
  A data frame is its column names and its rows of cells. The spreadsheet library is a
  record of the functions the script calls, \<open>None\<close> standing for a raised
  exception. \<open>write_excel\<close> is the block of lines 147 to 152 as a whole, applied to
  the sheets in the order they are written: it is \<open>False\<close> when building the writer,
  one of the three \<^verbatim>\<open>to_excel\<close> calls or closing the writer raises.

  The service maps the API key and the prompt to the content of the first choice, which
  is a text or nothing (\<^verbatim>\<open>message.content\<close> is an optional string), \<open>None\<close>
  standing for any exception raised inside the \<^verbatim>\<open>try\<close> of lines 101 to 108. The
  model \<^verbatim>\<open>gpt-4o\<close> and the temperature 0 are constants of the call.
\<close>

datatype cell = Num int | Txt string | NaN

record dataframe =
  columns :: "string list"
  rows :: "cell list list"

type_synonym workbook = "(string \<times> dataframe) list"

record 'f pandas =
  read_excel :: "'f \<Rightarrow> string \<Rightarrow> dataframe option"
  to_csv :: "dataframe \<Rightarrow> string"
  read_csv :: "string \<Rightarrow> dataframe option"
  write_excel :: "workbook \<Rightarrow> bool"

datatype content = Text string | NoContent

type_synonym service = "string \<Rightarrow> string \<Rightarrow> content option"

datatype outcome =
    Halted halt
  | Idle
  | Download workbook "log_msg list"

text \<open>Lines 100 to 112: the client is built from \<^verbatim>\<open>st.secrets["openai"]["api_key"]\<close>
  inside the \<^verbatim>\<open>try\<close>, so a failing lookup is handled like a failing call.\<close>

definition call_gpt :: "service \<Rightarrow> secrets \<Rightarrow> string \<Rightarrow> ui_error + content" where
  "call_gpt svc s p =
     (case openai_api_key s of
        Inl e \<Rightarrow> Inl ApiError
      | Inr k \<Rightarrow> (case svc k p of None \<Rightarrow> Inl ApiError | Some out \<Rightarrow> Inr out))"

text \<open>
  Lines 41 to 164, for an uploaded file. Two steps stand outside every \<^verbatim>\<open>try\<close>:
  the search of line 118, which raises \<^verbatim>\<open>TypeError\<close> on a content that is not a
  text, and the writing of the workbook in lines 147 to 152. An exception there ends the
  run uncaught.
\<close>

definition process :: "'f pandas \<Rightarrow> service \<Rightarrow> secrets \<Rightarrow> 'f \<Rightarrow> outcome" where
  "process pd svc s file =
     (case (read_excel pd file ''EDW'', read_excel pd file ''Journal'') of
        (Some edw_df, Some journal_df) \<Rightarrow>
          (case call_gpt svc s (prompt (to_csv pd edw_df) (to_csv pd journal_df)) of
             Inl e \<Rightarrow> Halted (Stop e)
           | Inr NoContent \<Rightarrow> Halted (Crash TypeError)
           | Inr (Text gpt_output) \<Rightarrow>
               (case extract_csv gpt_output of
                  Inl e \<Rightarrow> Halted (Stop e)
                | Inr csv_text \<Rightarrow>
                    (case read_csv pd csv_text of
                       None \<Rightarrow> Halted (Stop (CsvParseFailed csv_text))
                     | Some recon_df \<Rightarrow>
                         if write_excel pd
                              [(''Reconciliation'', recon_df), (''EDW'', edw_df),
                               (''Journal'', journal_df)]
                         then
                           Download
                             [(''Reconciliation'', recon_df), (''EDW'', edw_df),
                              (''Journal'', journal_df)]
                             [FileUploaded, ReadingSheets, SheetsConverted, SendingToGPT,
                              ResponseReceived, ParsedToDataFrame, GeneratingExcel]
                         else Halted (Crash WriterError))))
      | _ \<Rightarrow> Halted (Stop SheetsUnreadable))"

text \<open>The whole script: the key check of line 32 first, then the upload.\<close>

definition run :: "'f pandas \<Rightarrow> service \<Rightarrow> secrets \<Rightarrow> 'f option \<Rightarrow> outcome" where
  "run pd svc s uploaded_file =
     (case get_openai_api_key s of
        Inl h \<Rightarrow> Halted h
      | Inr k \<Rightarrow>
          (case uploaded_file of
             None \<Rightarrow> Idle
           | Some file \<Rightarrow> process pd svc s file))"


subsection \<open>Reading the reconciliation sheet\<close>

text \<open>
  The rows of a frame are read by column name. The columns used are those the prompt names:
  \<^verbatim>\<open>SIDE\<close>, \<^verbatim>\<open>Reconciliation\<close>, \<^verbatim>\<open>Amount\<close>, \<^verbatim>\<open>Ref 1\<close> and
  \<^verbatim>\<open>Status\<close> of the output, and the key columns of the two input sheets. The rows
  of one result are the rows that share a value of \<^verbatim>\<open>Reconciliation\<close>.
\<close>

fun num :: "cell \<Rightarrow> int" where
  "num (Num n) = n"
| "num (Txt t) = 0"
| "num NaN = 0"

definition field :: "dataframe \<Rightarrow> string \<Rightarrow> cell list \<Rightarrow> cell" where
  "field df name r = (case map_of (zip (columns df) r) name of Some c \<Rightarrow> c | None \<Rightarrow> NaN)"

definition amount :: "dataframe \<Rightarrow> cell list \<Rightarrow> int" where
  "amount df r = num (field df ''Amount'' r)"

definition side_rows :: "dataframe \<Rightarrow> string \<Rightarrow> cell list list" where
  "side_rows df sd = filter (\<lambda>r. field df ''SIDE'' r = Txt sd) (rows df)"

definition is_matched :: "dataframe \<Rightarrow> cell list \<Rightarrow> bool" where
  "is_matched df r = (field df ''Status'' r = Txt ''Matched'')"

definition dr_rows_of :: "dataframe \<Rightarrow> cell list \<Rightarrow> cell list list" where
  "dr_rows_of df cr =
     filter (\<lambda>r. field df ''Reconciliation'' r = field df ''Reconciliation'' cr) (side_rows df ''DR'')"

text \<open>
  Every matched credit row has a positive amount, its debit rows have negative amounts, and
  their absolute values add up to the credit amount.
\<close>

definition balanced :: "dataframe \<Rightarrow> bool" where
  "balanced df =
     list_all
       (\<lambda>cr. 0 < amount df cr
           \<and> list_all (\<lambda>d. amount df d < 0) (dr_rows_of df cr)
           \<and> sum_list (map (\<lambda>d. \<bar>amount df d\<bar>) (dr_rows_of df cr)) = amount df cr)
       (filter (is_matched df) (side_rows df ''CR''))"


text \<open>
  A matched credit row has at least one debit row, any other credit row has none, and
  every debit row belongs to the result of a matched credit row.
\<close>

definition rows_per_result :: "dataframe \<Rightarrow> bool" where
  "rows_per_result df =
     (list_all (\<lambda>cr. dr_rows_of df cr \<noteq> []) (filter (is_matched df) (side_rows df ''CR''))
      \<and> list_all (\<lambda>cr. dr_rows_of df cr = [])
           (filter (\<lambda>cr. \<not> is_matched df cr) (side_rows df ''CR''))
      \<and> list_all
           (\<lambda>d. list_ex (\<lambda>cr. field df ''Reconciliation'' cr = field df ''Reconciliation'' d)
                  (filter (is_matched df) (side_rows df ''CR'')))
           (side_rows df ''DR''))"


text \<open>
  The keys of a transaction and of a ledger entry. A transaction chosen for an entry has
  the keys of that entry, so every transaction named by a matched debit row has the keys of
  some row of the Journal sheet.
\<close>

definition edw_keys :: "dataframe \<Rightarrow> cell list \<Rightarrow> cell \<times> cell \<times> cell" where
  "edw_keys edw t =
     (field edw ''Account Number'' t, field edw ''Tran Code'' t, field edw ''Process Date'' t)"

definition journal_keys :: "dataframe \<Rightarrow> cell list \<Rightarrow> cell \<times> cell \<times> cell" where
  "journal_keys journal e =
     (field journal ''Account Number'' e, field journal ''Tran Code'' e,
      field journal ''Journal Date'' e)"

definition chosen_share_keys :: "dataframe \<Rightarrow> dataframe \<Rightarrow> dataframe \<Rightarrow> bool" where
  "chosen_share_keys edw journal recon =
     list_all
       (\<lambda>d. list_all
          (\<lambda>t. list_ex (\<lambda>e. journal_keys journal e = edw_keys edw t) (rows journal))
          (filter (\<lambda>t. field edw ''Transaction ID'' t = field recon ''Ref 1'' d) (rows edw)))
       (filter (is_matched recon) (side_rows recon ''DR''))"




subsection \<open>Concrete runs\<close>

text \<open>
  The uploaded file of the examples is the list of its sheets. The spreadsheet library is
  given by two tables, the CSV rendering of each frame and the frame parsed from each CSV
  text; a text outside the second table fails to parse. Writing a workbook succeeds, except
  in an installation that cannot build the writer (the engine of line 148 is a package of
  its own).
\<close>

definition pandas_of ::
  "(dataframe \<times> string) list \<Rightarrow> (string \<times> dataframe) list \<Rightarrow> workbook pandas" where
  "pandas_of rendered parsed =
     \<lparr>read_excel = map_of,
      to_csv = (\<lambda>df. case map_of rendered df of Some t \<Rightarrow> t | None \<Rightarrow> []),
      read_csv = map_of parsed,
      write_excel = (\<lambda>sheets. True)\<rparr>"

definition without_writer :: "'f pandas \<Rightarrow> 'f pandas" where
  "without_writer pd = pd\<lparr>write_excel := (\<lambda>sheets. False)\<rparr>"

definition answering :: "string \<Rightarrow> service" where
  "answering out = (\<lambda>k p. Some (Text out))"

definition answering_only :: "string \<Rightarrow> string \<Rightarrow> service" where
  "answering_only p out = (\<lambda>k q. if q = p then Some (Text out) else None)"

definition silent :: service where
  "silent = (\<lambda>k p. Some NoContent)"

definition unreachable :: service where
  "unreachable = (\<lambda>k p. None)"

definition secrets_local :: secrets where
  "secrets_local = [''openai'' \<mapsto> Table [(''api_key'', ''sk-test'')]]"

definition secrets_cloud :: secrets where
  "secrets_cloud = [''OPENAI_API_KEY'' \<mapsto> Str ''sk-test'']"

definition edw_columns :: "string list" where
  "edw_columns = [''Transaction ID'', ''Account Number'', ''Tran Code'', ''Process Date'',
     ''Amount (INR)'', ''Ref Code'', ''Description'']"

definition journal_columns :: "string list" where
  "journal_columns = [''Account Number'', ''Tran Code'', ''Journal Date'', ''Debit Amount'',
     ''Description'', ''GL Code'']"

definition recon_columns :: "string list" where
  "recon_columns = [''No'', ''Item Type'', ''Reconciliation'', ''SIDE'', ''Value Date'',
     ''Ref 1'', ''Amount'', ''Amt CCY'', ''Bus Entity'', ''Stmt Date'', ''Rule'', ''ENTRY DATE'',
     ''Ref 2'', ''Ref 3'', ''Ref 4'', ''Tran Code'', ''Status'']"

definition csv_header :: string where
  "csv_header = ''No,Item Type,Reconciliation,SIDE,Value Date,Ref 1,Amount,Amt CCY,Bus Entity,Stmt Date,Rule,ENTRY DATE,Ref 2,Ref 3,Ref 4,Tran Code,Status''"

definition edw_header :: string where
  "edw_header = ''Transaction ID,Account Number,Tran Code,Process Date,Amount (INR),Ref Code,Description''"

definition journal_header :: string where
  "journal_header = ''Account Number,Tran Code,Journal Date,Debit Amount,Description,GL Code''"

text \<open>The rows of the examples, all of transaction code 42 and dated 2024-01-05.\<close>

definition txn :: "string \<Rightarrow> int \<Rightarrow> int \<Rightarrow> string \<Rightarrow> string \<Rightarrow> cell list" where
  "txn tid acct amt rc descr =
     [Txt tid, Num acct, Num 42, Txt ''2024-01-05'', Num amt, Txt rc, Txt descr]"

definition cr_row :: "int \<Rightarrow> string \<Rightarrow> int \<Rightarrow> string \<Rightarrow> cell list" where
  "cr_row n rid amt status =
     [Num n, Txt ''Journal'', Txt rid, Txt ''CR'', Txt ''2024-01-05'', NaN, Num amt, Txt ''INR'',
      Txt ''India_BU'', Txt ''2024-01-05'', Txt ''AutoRule 42'', Txt ''2024-01-05'', NaN,
      Txt ''Vendor payout'', Txt ''GL100'', Num 42, Txt status]"

definition dr_row :: "int \<Rightarrow> string \<Rightarrow> string \<Rightarrow> int \<Rightarrow> string \<Rightarrow> string \<Rightarrow> string \<Rightarrow> cell list" where
  "dr_row n rid tid amt rc descr status =
     [Num n, Txt ''EDW'', Txt rid, Txt ''DR'', Txt ''2024-01-05'', Txt tid, Num amt, Txt ''INR'',
      Txt ''India_BU'', Txt ''2024-01-05'', Txt ''AutoRule 42'', Txt ''2024-01-05'', Txt rc,
      Txt descr, NaN, Num 42, Txt status]"

text \<open>One ledger entry of 1500 and two transactions of 1000 and 500 with its keys.\<close>

definition edw_A :: dataframe where
  "edw_A = \<lparr>columns = edw_columns, rows =
     [txn ''T1'' 100 (- 1000) ''RC1'' ''Part one'', txn ''T2'' 100 (- 500) ''RC2'' ''Part two'']\<rparr>"

definition journal_A :: dataframe where
  "journal_A = \<lparr>columns = journal_columns, rows =
     [[Num 100, Num 42, Txt ''2024-01-05'', Num 1500, Txt ''Vendor payout'', Txt ''GL100'']]\<rparr>"

definition edw_A_csv :: string where
  "edw_A_csv = join nl
     [edw_header,
      ''T1,100,42,2024-01-05,-1000,RC1,Part one'',
      ''T2,100,42,2024-01-05,-500,RC2,Part two''] @ nl"

definition journal_A_csv :: string where
  "journal_A_csv = join nl
     [journal_header,
      ''100,42,2024-01-05,1500,Vendor payout,GL100''] @ nl"

definition file_A :: workbook where
  "file_A = [(''EDW'', edw_A), (''Journal'', journal_A)]"

definition csv_A :: string where
  "csv_A = join nl
     [csv_header,
      ''1,Journal,R1,CR,2024-01-05,,1500,INR,India_BU,2024-01-05,AutoRule 42,2024-01-05,,Vendor payout,GL100,42,Matched'',
      ''2,EDW,R1,DR,2024-01-05,T1,-1000,INR,India_BU,2024-01-05,AutoRule 42,2024-01-05,RC1,Part one,,42,Matched'',
      ''3,EDW,R1,DR,2024-01-05,T2,-500,INR,India_BU,2024-01-05,AutoRule 42,2024-01-05,RC2,Part two,,42,Matched'']"

definition recon_A :: dataframe where
  "recon_A = \<lparr>columns = recon_columns, rows =
     [cr_row 1 ''R1'' 1500 ''Matched'',
      dr_row 2 ''R1'' ''T1'' (- 1000) ''RC1'' ''Part one'' ''Matched'',
      dr_row 3 ''R1'' ''T2'' (- 500) ''RC2'' ''Part two'' ''Matched'']\<rparr>"

text \<open>A second answer to the same upload: the entry reported as unmatched.\<close>

definition csv_unmatched :: string where
  "csv_unmatched = join nl
     [csv_header,
      ''1,Journal,R1,CR,2024-01-05,,1500,INR,India_BU,2024-01-05,AutoRule 42,2024-01-05,,Vendor payout,GL100,42,UNMATCHED'']"

definition recon_unmatched :: dataframe where
  "recon_unmatched = \<lparr>columns = recon_columns, rows = [cr_row 1 ''R1'' 1500 ''UNMATCHED'']\<rparr>"

text \<open>An answer that reports a match of 1500 with the single transaction of 1000.\<close>

definition csv_short :: string where
  "csv_short = join nl
     [csv_header,
      ''1,Journal,R1,CR,2024-01-05,,1500,INR,India_BU,2024-01-05,AutoRule 42,2024-01-05,,Vendor payout,GL100,42,Matched'',
      ''2,EDW,R1,DR,2024-01-05,T1,-1000,INR,India_BU,2024-01-05,AutoRule 42,2024-01-05,RC1,Part one,,42,Matched'']"

definition recon_short :: dataframe where
  "recon_short = \<lparr>columns = recon_columns, rows =
     [cr_row 1 ''R1'' 1500 ''Matched'',
      dr_row 2 ''R1'' ''T1'' (- 1000) ''RC1'' ''Part one'' ''Matched'']\<rparr>"

text \<open>Two ledger entries of 1000 each, and an answer that matches both with T1.\<close>

definition journal_twice :: dataframe where
  "journal_twice = \<lparr>columns = journal_columns, rows =
     [[Num 100, Num 42, Txt ''2024-01-05'', Num 1000, Txt ''Vendor payout'', Txt ''GL100''],
      [Num 100, Num 42, Txt ''2024-01-05'', Num 1000, Txt ''Vendor payout'', Txt ''GL100'']]\<rparr>"

definition journal_twice_csv :: string where
  "journal_twice_csv = join nl
     [journal_header,
      ''100,42,2024-01-05,1000,Vendor payout,GL100'',
      ''100,42,2024-01-05,1000,Vendor payout,GL100''] @ nl"

definition file_twice :: workbook where
  "file_twice = [(''EDW'', edw_A), (''Journal'', journal_twice)]"

definition csv_twice :: string where
  "csv_twice = join nl
     [csv_header,
      ''1,Journal,R1,CR,2024-01-05,,1000,INR,India_BU,2024-01-05,AutoRule 42,2024-01-05,,Vendor payout,GL100,42,Matched'',
      ''2,EDW,R1,DR,2024-01-05,T1,-1000,INR,India_BU,2024-01-05,AutoRule 42,2024-01-05,RC1,Part one,,42,Matched'',
      ''3,Journal,R2,CR,2024-01-05,,1000,INR,India_BU,2024-01-05,AutoRule 42,2024-01-05,,Vendor payout,GL100,42,Matched'',
      ''4,EDW,R2,DR,2024-01-05,T1,-1000,INR,India_BU,2024-01-05,AutoRule 42,2024-01-05,RC1,Part one,,42,Matched'']"

definition recon_twice :: dataframe where
  "recon_twice = \<lparr>columns = recon_columns, rows =
     [cr_row 1 ''R1'' 1000 ''Matched'',
      dr_row 2 ''R1'' ''T1'' (- 1000) ''RC1'' ''Part one'' ''Matched'',
      cr_row 3 ''R2'' 1000 ''Matched'',
      dr_row 4 ''R2'' ''T1'' (- 1000) ''RC1'' ''Part one'' ''Matched'']\<rparr>"

text \<open>
  Transactions that add up to 1400 only, and an answer that lists them under the unmatched
  entry with the status the prompt gives for that case.
\<close>

definition edw_B :: dataframe where
  "edw_B = \<lparr>columns = edw_columns, rows =
     [txn ''T1'' 100 (- 1000) ''RC1'' ''Part one'', txn ''T2'' 100 (- 400) ''RC2'' ''Part two'']\<rparr>"

definition edw_B_csv :: string where
  "edw_B_csv = join nl
     [edw_header,
      ''T1,100,42,2024-01-05,-1000,RC1,Part one'',
      ''T2,100,42,2024-01-05,-400,RC2,Part two''] @ nl"

definition file_B :: workbook where
  "file_B = [(''EDW'', edw_B), (''Journal'', journal_A)]"

definition csv_listed :: string where
  "csv_listed = join nl
     [csv_header,
      ''1,Journal,R1,CR,2024-01-05,,1500,INR,India_BU,2024-01-05,AutoRule 42,2024-01-05,,Vendor payout,GL100,42,UNMATCHED'',
      ''2,EDW,R1,DR,2024-01-05,T1,-1000,INR,India_BU,2024-01-05,AutoRule 42,2024-01-05,RC1,Part one,,42,UNMATCHED'',
      ''3,EDW,R1,DR,2024-01-05,T2,-400,INR,India_BU,2024-01-05,AutoRule 42,2024-01-05,RC2,Part two,,42,UNMATCHED'']"

definition recon_listed :: dataframe where
  "recon_listed = \<lparr>columns = recon_columns, rows =
     [cr_row 1 ''R1'' 1500 ''UNMATCHED'',
      dr_row 2 ''R1'' ''T1'' (- 1000) ''RC1'' ''Part one'' ''UNMATCHED'',
      dr_row 3 ''R1'' ''T2'' (- 400) ''RC2'' ''Part two'' ''UNMATCHED'']\<rparr>"

text \<open>
  A second ledger entry, of the next day, that no transaction matches; the answer holds the
  rows of the one match, as the prompt asks rows for each match.
\<close>

definition journal_two :: dataframe where
  "journal_two = \<lparr>columns = journal_columns, rows =
     [[Num 100, Num 42, Txt ''2024-01-05'', Num 1500, Txt ''Vendor payout'', Txt ''GL100''],
      [Num 100, Num 42, Txt ''2024-01-06'', Num 700, Txt ''Bank fee'', Txt ''GL200'']]\<rparr>"

definition journal_two_csv :: string where
  "journal_two_csv = join nl
     [journal_header,
      ''100,42,2024-01-05,1500,Vendor payout,GL100'',
      ''100,42,2024-01-06,700,Bank fee,GL200''] @ nl"

definition file_two :: workbook where
  "file_two = [(''EDW'', edw_A), (''Journal'', journal_two)]"

text \<open>
  A transaction T4 of another account whose amount completes the sum, and an answer that
  uses it.
\<close>

definition edw_D :: dataframe where
  "edw_D = \<lparr>columns = edw_columns, rows =
     [txn ''T1'' 100 (- 1000) ''RC1'' ''Part one'', txn ''T4'' 200 (- 500) ''RC4'' ''Other account'']\<rparr>"

definition edw_D_csv :: string where
  "edw_D_csv = join nl
     [edw_header,
      ''T1,100,42,2024-01-05,-1000,RC1,Part one'',
      ''T4,200,42,2024-01-05,-500,RC4,Other account''] @ nl"

definition file_D :: workbook where
  "file_D = [(''EDW'', edw_D), (''Journal'', journal_A)]"

definition csv_D :: string where
  "csv_D = join nl
     [csv_header,
      ''1,Journal,R1,CR,2024-01-05,,1500,INR,India_BU,2024-01-05,AutoRule 42,2024-01-05,,Vendor payout,GL100,42,Matched'',
      ''2,EDW,R1,DR,2024-01-05,T1,-1000,INR,India_BU,2024-01-05,AutoRule 42,2024-01-05,RC1,Part one,,42,Matched'',
      ''3,EDW,R1,DR,2024-01-05,T4,-500,INR,India_BU,2024-01-05,AutoRule 42,2024-01-05,RC4,Other account,,42,Matched'']"

definition recon_D :: dataframe where
  "recon_D = \<lparr>columns = recon_columns, rows =
     [cr_row 1 ''R1'' 1500 ''Matched'',
      dr_row 2 ''R1'' ''T1'' (- 1000) ''RC1'' ''Part one'' ''Matched'',
      dr_row 3 ''R1'' ''T4'' (- 500) ''RC4'' ''Other account'' ''Matched'']\<rparr>"

text \<open>
  A third transaction T3 of 1500 with the keys of the entry, which covers it alone.
\<close>

definition edw_C :: dataframe where
  "edw_C = \<lparr>columns = edw_columns, rows =
     [txn ''T1'' 100 (- 1000) ''RC1'' ''Part one'', txn ''T2'' 100 (- 500) ''RC2'' ''Part two'',
      txn ''T3'' 100 (- 1500) ''RC3'' ''Whole'']\<rparr>"

definition edw_C_csv :: string where
  "edw_C_csv = join nl
     [edw_header,
      ''T1,100,42,2024-01-05,-1000,RC1,Part one'',
      ''T2,100,42,2024-01-05,-500,RC2,Part two'',
      ''T3,100,42,2024-01-05,-1500,RC3,Whole''] @ nl"


text \<open>
  An upload without a Journal sheet, an answer in prose only, and CSV text whose third line
  has 19 fields under a header of 17, which the parser rejects.
\<close>

definition file_no_journal :: workbook where
  "file_no_journal = [(''EDW'', edw_A)]"

definition prose_answer :: string where
  "prose_answer = ''I could not find any matching transactions.''"

definition csv_ragged :: string where
  "csv_ragged = join nl
     [csv_header,
      ''1,Journal,R1,CR,2024-01-05,,1500,INR,India_BU,2024-01-05,AutoRule 42,2024-01-05,,Vendor payout,GL100,42,Matched'',
      ''2,EDW,R1,DR,2024-01-05,T1,-1000,INR,India_BU,2024-01-05,AutoRule 42,2024-01-05,RC1,Part one, first tranche, settled,,42,Matched'']"

text \<open>An answer that wraps the CSV in a fence, as the pattern of line 117 expects.\<close>

definition fenced :: "string \<Rightarrow> string" where
  "fenced csv = ''Here is the reconciliation:'' @ nl @ nl @ ''```csv'' @ nl @ csv @ nl @ ''```'' @ nl"

definition pandas_demo :: "workbook pandas" where
  "pandas_demo =
     pandas_of
       [(edw_A, edw_A_csv), (journal_A, journal_A_csv), (journal_twice, journal_twice_csv),
        (edw_B, edw_B_csv), (journal_two, journal_two_csv), (edw_D, edw_D_csv),
        (edw_C, edw_C_csv)]
       [(csv_A, recon_A), (csv_unmatched, recon_unmatched), (csv_short, recon_short),
        (csv_twice, recon_twice), (csv_listed, recon_listed), (csv_D, recon_D)]"

definition all_logs :: "log_msg list" where
  "all_logs = [FileUploaded, ReadingSheets, SheetsConverted, SendingToGPT, ResponseReceived,
     ParsedToDataFrame, GeneratingExcel]"

section \<open>Properties\<close>

subsection \<open>Helper facts\<close>

lemma extract_fenced_A: "extract_csv (fenced csv_A) = Inr csv_A"
  by code_simp

lemma read_excel_demo: "read_excel pandas_demo = map_of"
  by (simp add: pandas_demo_def pandas_of_def)

lemma write_demo: "write_excel pandas_demo sheets"
  by (simp add: pandas_demo_def pandas_of_def)

lemma key_check_passes:
  assumes "openai_api_key s = Inr k"
  shows "get_openai_api_key s = Inr (Str k)"
proof -
  obtain v where v: "s ''openai'' = Some v" and i: "item v ''api_key'' = Inr k"
    using assms by (auto simp add: openai_api_key_def split: option.splits)
  obtain t where t: "v = Table t" and m: "map_of t ''api_key'' = Some k"
    using i by (cases v) (auto split: option.splits)
  show ?thesis
    using assms by (simp add: get_openai_api_key_def v t m)
qed

lemma sheets_A:
  "read_excel pandas_demo file_A ''EDW'' = Some edw_A"
  "read_excel pandas_demo file_A ''Journal'' = Some journal_A"
  by (simp_all add: read_excel_demo file_A_def)

lemma read_csv_A: "read_csv pandas_demo csv_A = Some recon_A"
  by (simp add: pandas_demo_def pandas_of_def)

lemma key_local: "openai_api_key secrets_local = Inr ''sk-test''"
  by (simp add: openai_api_key_def secrets_local_def)

lemma get_key_local: "get_openai_api_key secrets_local = Inr (Str ''sk-test'')"
  by (simp add: get_openai_api_key_def openai_api_key_def secrets_local_def)

lemma get_key_cloud: "get_openai_api_key secrets_cloud = Inr (Str ''sk-test'')"
  by (simp add: get_openai_api_key_def secrets_cloud_def)

lemma run_A:
  "run pandas_demo (answering (fenced csv_A)) secrets_local (Some file_A) =
     Download [(''Reconciliation'', recon_A), (''EDW'', edw_A), (''Journal'', journal_A)] all_logs"
  by (simp add: run_def process_def call_gpt_def get_key_local key_local sheets_A
      answering_def extract_fenced_A read_csv_A write_demo all_logs_def)

subsection \<open>The key check and the client of the call\<close>

text \<open>
  C9. With no \<^verbatim>\<open>openai\<close> entry and a top-level \<^verbatim>\<open>OPENAI_API_KEY\<close>, the key
  check of line 32 succeeds and returns that secret, yet the call step fails whatever the
  service and the prompt are, because its client reads \<^verbatim>\<open>st.secrets["openai"]["api_key"]\<close>
  alone. So no run offers a download, and a run whose two sheets are read stops with the
  message of the call step.
\<close>

theorem top_level_key_passes_check_fails_call:
  assumes "s ''openai'' = None" and "s ''OPENAI_API_KEY'' = Some k"
  shows "get_openai_api_key s = Inr k
       \<and> call_gpt svc s p = Inl ApiError
       \<and> (\<forall>wb logs. run pd svc s up \<noteq> Download wb logs)
       \<and> (read_excel pd file ''EDW'' = Some e \<and> read_excel pd file ''Journal'' = Some j
            \<longrightarrow> run pd svc s (Some file) = Halted (Stop ApiError))"
proof -
  have key: "get_openai_api_key s = Inr k"
    using assms by (simp add: get_openai_api_key_def)
  have call: "call_gpt svc s q = Inl ApiError" for q
    using assms by (simp add: call_gpt_def openai_api_key_def)
  have proc: "process pd svc s f \<noteq> Download wb logs" for f wb logs
    by (simp add: process_def call split: option.splits)
  have no_download: "run pd svc s up \<noteq> Download wb logs" for wb logs
    using proc by (simp add: run_def key split: option.splits)
  have stop: "run pd svc s (Some file) = Halted (Stop ApiError)"
    if "read_excel pd file ''EDW'' = Some e" "read_excel pd file ''Journal'' = Some j"
    using that by (simp add: run_def key process_def call)
  show ?thesis
    using key call no_download stop by blast
qed

theorem top_level_key_passes_check_fails_call_witness:
  "secrets_cloud ''openai'' = None \<and> secrets_cloud ''OPENAI_API_KEY'' = Some (Str ''sk-test'')
   \<and> read_excel pandas_demo file_A ''EDW'' = Some edw_A
   \<and> read_excel pandas_demo file_A ''Journal'' = Some journal_A
   \<and> get_openai_api_key secrets_cloud = Inr (Str ''sk-test'')
   \<and> run pandas_demo (answering (fenced csv_A)) secrets_cloud (Some file_A) = Halted (Stop ApiError)"
proof -
  have a: "secrets_cloud ''openai'' = None"
    by (simp add: secrets_cloud_def)
  have b: "secrets_cloud ''OPENAI_API_KEY'' = Some (Str ''sk-test'')"
    by (simp add: secrets_cloud_def)
  show ?thesis
    using top_level_key_passes_check_fails_call
      [OF a b, of "answering (fenced csv_A)" "[]" pandas_demo "Some file_A" file_A edw_A journal_A]
      a b sheets_A
    by simp
qed

subsection \<open>The input sheets in the output workbook\<close>

text \<open>
  C10. Whenever a run reaches the download, a file was uploaded and the workbook offered
  holds three sheets in this order: the reconciliation sheet, then under the names
  \<^verbatim>\<open>EDW\<close> and \<^verbatim>\<open>Journal\<close> exactly the two frames that were read from the
  uploaded file.
\<close>

theorem input_sheets_pass_through:
  assumes "run pd svc s up = Download wb logs"
  shows "\<exists>file recon. up = Some file
       \<and> wb = [(''Reconciliation'', recon),
               (''EDW'', the (read_excel pd file ''EDW'')),
               (''Journal'', the (read_excel pd file ''Journal''))]
       \<and> map_of wb ''EDW'' = read_excel pd file ''EDW''
       \<and> map_of wb ''Journal'' = read_excel pd file ''Journal''"
  using assms
  by (auto simp add: run_def process_def
      split: sum.splits option.splits content.splits if_splits)

theorem input_sheets_pass_through_witness:
  "run pandas_demo (answering (fenced csv_A)) secrets_local (Some file_A) =
     Download [(''Reconciliation'', recon_A), (''EDW'', edw_A), (''Journal'', journal_A)] all_logs
   \<and> map_of [(''Reconciliation'', recon_A), (''EDW'', edw_A), (''Journal'', journal_A)] ''EDW''
       = read_excel pandas_demo file_A ''EDW''
   \<and> map_of [(''Reconciliation'', recon_A), (''EDW'', edw_A), (''Journal'', journal_A)] ''Journal''
       = read_excel pandas_demo file_A ''Journal''"
  using input_sheets_pass_through [OF run_A] run_A
  by simp

subsection \<open>More helper facts\<close>

lemma extract_fenced_unmatched: "extract_csv (fenced csv_unmatched) = Inr csv_unmatched"
  by code_simp

lemma extract_fenced_short: "extract_csv (fenced csv_short) = Inr csv_short"
  by code_simp


lemma extract_fenced_listed: "extract_csv (fenced csv_listed) = Inr csv_listed"
  by code_simp

lemma extract_fenced_D: "extract_csv (fenced csv_D) = Inr csv_D"
  by code_simp

lemma extract_fenced_ragged: "extract_csv (fenced csv_ragged) = Inr csv_ragged"
  by code_simp

lemma extract_prose: "extract_csv prose_answer = Inl (NoCsvFound prose_answer)"
  by code_simp

lemma read_csv_demo:
  "read_csv pandas_demo csv_unmatched = Some recon_unmatched"
  "read_csv pandas_demo csv_short = Some recon_short"
  "read_csv pandas_demo csv_twice = Some recon_twice"
  "read_csv pandas_demo csv_listed = Some recon_listed"
  "read_csv pandas_demo csv_D = Some recon_D"
  "read_csv pandas_demo csv_ragged = None"
  by code_simp+

lemma to_csv_demo:
  "to_csv pandas_demo edw_A = edw_A_csv"
  "to_csv pandas_demo journal_A = journal_A_csv"
  by code_simp+

lemma sheets_demo:
  "read_excel pandas_demo file_twice ''EDW'' = Some edw_A"
  "read_excel pandas_demo file_twice ''Journal'' = Some journal_twice"
  "read_excel pandas_demo file_B ''EDW'' = Some edw_B"
  "read_excel pandas_demo file_B ''Journal'' = Some journal_A"
  "read_excel pandas_demo file_two ''EDW'' = Some edw_A"
  "read_excel pandas_demo file_two ''Journal'' = Some journal_two"
  "read_excel pandas_demo file_D ''EDW'' = Some edw_D"
  "read_excel pandas_demo file_D ''Journal'' = Some journal_A"
  "read_excel pandas_demo file_no_journal ''EDW'' = Some edw_A"
  "read_excel pandas_demo file_no_journal ''Journal'' = None"
  by (simp_all add: read_excel_demo file_twice_def file_B_def file_two_def file_D_def
      file_no_journal_def)

lemma run_download:
  assumes "openai_api_key s = Inr k"
    and "read_excel pd file ''EDW'' = Some e" and "read_excel pd file ''Journal'' = Some j"
    and "svc k (prompt (to_csv pd e) (to_csv pd j)) = Some (Text out)"
    and "extract_csv out = Inr t" and "read_csv pd t = Some r"
    and "write_excel pd [(''Reconciliation'', r), (''EDW'', e), (''Journal'', j)]"
  shows "run pd svc s (Some file) =
           Download [(''Reconciliation'', r), (''EDW'', e), (''Journal'', j)] all_logs"
  using assms key_check_passes [OF assms(1)]
  by (simp add: run_def process_def call_gpt_def all_logs_def)

lemma run_demo:
  assumes "read_excel pandas_demo file ''EDW'' = Some e"
    and "read_excel pandas_demo file ''Journal'' = Some j"
    and "extract_csv out = Inr t" and "read_csv pandas_demo t = Some r"
  shows "run pandas_demo (answering out) secrets_local (Some file) =
           Download [(''Reconciliation'', r), (''EDW'', e), (''Journal'', j)] all_logs"
  by (rule run_download [OF key_local assms(1,2) _ assms(3,4) write_demo])
     (simp add: answering_def)

text \<open>The two steps outside every \<^verbatim>\<open>try\<close>: an exception there ends the run uncaught.\<close>

lemma no_content_crashes:
  assumes "get_openai_api_key s = Inr k0" and "openai_api_key s = Inr k"
    and "read_excel pd file ''EDW'' = Some e" and "read_excel pd file ''Journal'' = Some j"
    and "svc k (prompt (to_csv pd e) (to_csv pd j)) = Some NoContent"
  shows "run pd svc s (Some file) = Halted (Crash TypeError)"
  using assms by (simp add: run_def process_def call_gpt_def)

lemma writer_failure_crashes:
  assumes "get_openai_api_key s = Inr k0" and "openai_api_key s = Inr k"
    and "read_excel pd file ''EDW'' = Some e" and "read_excel pd file ''Journal'' = Some j"
    and "svc k (prompt (to_csv pd e) (to_csv pd j)) = Some (Text out)"
    and "extract_csv out = Inr t" and "read_csv pd t = Some r"
    and "\<not> write_excel pd [(''Reconciliation'', r), (''EDW'', e), (''Journal'', j)]"
  shows "run pd svc s (Some file) = Halted (Crash WriterError)"
  using assms by (simp add: run_def process_def call_gpt_def)

lemma silent_run_crashes:
  "run pandas_demo silent secrets_local (Some file_A) = Halted (Crash TypeError)"
  by (rule no_content_crashes [OF get_key_local key_local sheets_A]) (simp add: silent_def)

lemma run_without_writer_crashes:
  "run (without_writer pandas_demo) (answering (fenced csv_A)) secrets_local (Some file_A) =
     Halted (Crash WriterError)"
proof -
  have "read_excel (without_writer pandas_demo) file_A ''EDW'' = Some edw_A"
    and "read_excel (without_writer pandas_demo) file_A ''Journal'' = Some journal_A"
    and "read_csv (without_writer pandas_demo) csv_A = Some recon_A"
    and "\<not> write_excel (without_writer pandas_demo) sheets" for sheets
    by (simp_all add: without_writer_def sheets_A read_csv_A)
  then show ?thesis
    by (intro writer_failure_crashes [OF get_key_local key_local _ _ _ extract_fenced_A])
       (simp_all add: answering_def)
qed

lemma line_in_join: "l \<in> set ls \<Longrightarrow> sublist (sep @ l @ sep) (sep @ join sep ls @ sep)"
proof (induction sep ls rule: join.induct)
  case (1 sep)
  then show ?case by simp
next
  case (2 sep x)
  then show ?case by simp
next
  case (3 sep x y ys)
  show ?case
  proof (cases "l = x")
    case True
    have "sep @ join sep (x # y # ys) @ sep = (sep @ l @ sep) @ join sep (y # ys) @ sep"
      using True by simp
    then show ?thesis
      by (metis sublist_append_rightI)
  next
    case False
    with 3 have "sublist (sep @ l @ sep) (sep @ join sep (y # ys) @ sep)"
      by simp
    then obtain ps ss where "sep @ join sep (y # ys) @ sep = ps @ (sep @ l @ sep) @ ss"
      by (auto simp add: sublist_def)
    then have "sep @ join sep (x # y # ys) @ sep = (sep @ x @ ps) @ (sep @ l @ sep) @ ss"
      by simp
    then show ?thesis
      unfolding sublist_def by blast
  qed
qed

lemma rule_in_prompt:
  assumes "l \<in> set prompt_rules"
  shows "sublist (nl @ l @ nl) (prompt edw_csv journal_csv)"
proof -
  obtain ps ss where "nl @ join nl prompt_rules @ nl = ps @ (nl @ l @ nl) @ ss"
    using line_in_join [OF assms, of nl] by (auto simp add: sublist_def)
  then have "prompt edw_csv journal_csv =
      ps @ (nl @ l @ nl) @ (ss @ edw_csv @ nl @ nl @ ''### Journal Sheet CSV:'' @ nl @ journal_csv @ nl)"
    by (simp add: prompt_def)
  then show ?thesis
    unfolding sublist_def by blast
qed

subsection \<open>Amounts of matched rows\<close>

text \<open>
  C1, as the script has it. Whenever the key of the client is found, both sheets are read,
  the service answers the prompt built from them with a text, CSV text is found in it and
  parses to a frame, and the workbook is written, then the prompt that was sent states as
  lines of their own that absolute EDW amounts sum up to the Journal debit amount, that the
  amount in DR lines is negative and that the amount in CR lines is positive, and the run
  offers for download that very frame as the reconciliation sheet. This holds of every
  frame: no condition on its amounts is among the conditions of the download.
\<close>

theorem amount_rules_sent_answer_forwarded:
  assumes "openai_api_key s = Inr k"
    and "read_excel pd file ''EDW'' = Some e" and "read_excel pd file ''Journal'' = Some j"
    and "svc k (prompt (to_csv pd e) (to_csv pd j)) = Some (Text out)"
    and "extract_csv out = Inr t" and "read_csv pd t = Some r"
    and "write_excel pd [(''Reconciliation'', r), (''EDW'', e), (''Journal'', j)]"
  shows "sublist (nl @ ''- Match absolute values of EDW Amounts that sum up to Journal Debit Amount'' @ nl)
           (prompt (to_csv pd e) (to_csv pd j))
       \<and> sublist (nl @ ''- Amount in DR lines is **negative**'' @ nl)
           (prompt (to_csv pd e) (to_csv pd j))
       \<and> sublist (nl @ ''- Amount in CR lines is **positive**'' @ nl)
           (prompt (to_csv pd e) (to_csv pd j))
       \<and> run pd svc s (Some file) =
           Download [(''Reconciliation'', r), (''EDW'', e), (''Journal'', j)] all_logs"
proof -
  have r0: "''- Match absolute values of EDW Amounts that sum up to Journal Debit Amount'' \<in> set prompt_rules"
    by (simp add: prompt_rules_def)
  have r1: "''- Amount in DR lines is **negative**'' \<in> set prompt_rules"
    by (simp add: prompt_rules_def)
  have r2: "''- Amount in CR lines is **positive**'' \<in> set prompt_rules"
    by (simp add: prompt_rules_def)
  show ?thesis
    using rule_in_prompt [OF r0] rule_in_prompt [OF r1] rule_in_prompt [OF r2]
      run_download [of s k pd "file" e j svc out t r, OF assms]
    by blast
qed

text \<open>An instance with a frame that is not balanced.\<close>

theorem amount_rules_sent_answer_forwarded_witness:
  "\<not> balanced recon_short
   \<and> sublist (nl @ ''- Match absolute values of EDW Amounts that sum up to Journal Debit Amount'' @ nl) (prompt edw_A_csv journal_A_csv)
   \<and> sublist (nl @ ''- Amount in DR lines is **negative**'' @ nl) (prompt edw_A_csv journal_A_csv)
   \<and> sublist (nl @ ''- Amount in CR lines is **positive**'' @ nl) (prompt edw_A_csv journal_A_csv)
   \<and> run pandas_demo (answering (fenced csv_short)) secrets_local (Some file_A) =
       Download [(''Reconciliation'', recon_short), (''EDW'', edw_A), (''Journal'', journal_A)] all_logs"
proof -
  have a: "answering (fenced csv_short) ''sk-test'' (prompt (to_csv pandas_demo edw_A) (to_csv pandas_demo journal_A))
      = Some (Text (fenced csv_short))"
    by (simp add: answering_def)
  have c: "to_csv pandas_demo edw_A = edw_A_csv" "to_csv pandas_demo journal_A = journal_A_csv"
    by code_simp+
  have x: "\<not> balanced recon_short" by code_simp
  show ?thesis
    using amount_rules_sent_answer_forwarded [of secrets_local "''sk-test''" pandas_demo file_A edw_A journal_A
        "answering (fenced csv_short)" "fenced csv_short" csv_short recon_short,
        OF key_local sheets_A a extract_fenced_short read_csv_demo(2) write_demo] x
    by (simp add: c)
qed

text \<open>
  As C1 is stated, it fails on the script.
  The answer decides the amounts: for the upload with one entry of 1500, an answer that
  reports a match with the transaction of 1000 alone goes to the download unchanged, and
  its sheet is not balanced.
\<close>

theorem unbalanced_match_counterexample:
  "run pandas_demo (answering (fenced csv_short)) secrets_local (Some file_A) =
     Download [(''Reconciliation'', recon_short), (''EDW'', edw_A), (''Journal'', journal_A)] all_logs
   \<and> \<not> balanced recon_short"
proof -
  have "\<not> balanced recon_short" by code_simp
  then show ?thesis
    using run_demo [OF sheets_A extract_fenced_short read_csv_demo(2)] by simp
qed

subsection \<open>Transactions used more than once\<close>




subsection \<open>Two runs on the same input\<close>

text \<open>
  C3, as the script has it. Two runs with the same library, secrets and upload have the same
  outcome whenever the two services give the same answer to the one prompt built from the
  two sheets of the upload, under the key of the client. What the services answer elsewhere
  does not matter, and without an upload or a readable sheet no service is asked.
\<close>

theorem same_answer_same_outcome:
  assumes "\<And>file e j k. up = Some file \<Longrightarrow> read_excel pd file ''EDW'' = Some e \<Longrightarrow>
             read_excel pd file ''Journal'' = Some j \<Longrightarrow> openai_api_key s = Inr k \<Longrightarrow>
             svc1 k (prompt (to_csv pd e) (to_csv pd j)) = svc2 k (prompt (to_csv pd e) (to_csv pd j))"
  shows "run pd svc1 s up = run pd svc2 s up"
proof (cases up)
  case None
  then show ?thesis by (simp add: run_def split: sum.splits)
next
  case (Some f)
  have "process pd svc1 s f = process pd svc2 s f"
  proof (cases "read_excel pd f ''EDW''")
    case None
    then show ?thesis by (simp add: process_def)
  next
    case e: (Some e)
    show ?thesis
    proof (cases "read_excel pd f ''Journal''")
      case None
      then show ?thesis by (simp add: process_def e)
    next
      case j: (Some j)
      have "call_gpt svc1 s (prompt (to_csv pd e) (to_csv pd j)) =
            call_gpt svc2 s (prompt (to_csv pd e) (to_csv pd j))"
        using assms [OF Some e j] by (simp add: call_gpt_def split: sum.splits)
      then show ?thesis by (simp add: process_def e j)
    qed
  qed
  then show ?thesis by (simp add: run_def Some split: sum.splits)
qed

theorem same_answer_same_outcome_witness:
  "answering (fenced csv_A) ''other-key'' [] \<noteq>
     answering_only (prompt edw_A_csv journal_A_csv) (fenced csv_A) ''other-key'' []
   \<and> run pandas_demo (answering (fenced csv_A)) secrets_local (Some file_A) =
     run pandas_demo (answering_only (prompt edw_A_csv journal_A_csv) (fenced csv_A)) secrets_local
       (Some file_A)"
proof -
  have p: "prompt edw_A_csv journal_A_csv \<noteq> []"
    by (simp add: prompt_def nl_def)
  have "run pandas_demo (answering (fenced csv_A)) secrets_local (Some file_A) =
     run pandas_demo (answering_only (prompt edw_A_csv journal_A_csv) (fenced csv_A)) secrets_local
       (Some file_A)"
    by (rule same_answer_same_outcome)
       (auto simp add: read_excel_demo file_A_def to_csv_demo answering_def answering_only_def)
  then show ?thesis
    using p by (simp add: answering_def answering_only_def)
qed

text \<open>
  As C3 is stated, it fails on the script.
  The input tables alone do not fix the output: the same upload with two answers gives two
  different outcomes.
\<close>

theorem answers_differ_counterexample:
  "run pandas_demo (answering (fenced csv_A)) secrets_local (Some file_A) \<noteq>
   run pandas_demo (answering (fenced csv_unmatched)) secrets_local (Some file_A)"
proof -
  have "recon_A \<noteq> recon_unmatched" by code_simp
  then show ?thesis
    using run_A run_demo [OF sheets_A extract_fenced_unmatched read_csv_demo(1)] by simp
qed

subsection \<open>Keys of the chosen transactions\<close>

text \<open>
  C5, as the script has it. Whenever the key of the client is found, both sheets are read,
  the service answers the prompt built from them with a text, CSV text is found in it and
  parses to a frame, and the workbook is written, then the prompt that was sent states as a
  line of its own the rule to match on account number, transaction code and journal date
  equal to process date, and the run offers for download that very frame as the
  reconciliation sheet. This holds of every frame and of every pair of input sheets: no
  condition on the keys of the transactions that the frame names is among the conditions
  of the download.
\<close>

theorem key_rule_sent_answer_forwarded:
  assumes "openai_api_key s = Inr k"
    and "read_excel pd file ''EDW'' = Some e" and "read_excel pd file ''Journal'' = Some j"
    and "svc k (prompt (to_csv pd e) (to_csv pd j)) = Some (Text out)"
    and "extract_csv out = Inr t" and "read_csv pd t = Some r"
    and "write_excel pd [(''Reconciliation'', r), (''EDW'', e), (''Journal'', j)]"
  shows "sublist (nl @ ''- Match on Account Number, Tran Code, and Journal Date = Process Date'' @ nl)
           (prompt (to_csv pd e) (to_csv pd j))
       \<and> run pd svc s (Some file) =
           Download [(''Reconciliation'', r), (''EDW'', e), (''Journal'', j)] all_logs"
proof -
  have r0: "''- Match on Account Number, Tran Code, and Journal Date = Process Date'' \<in> set prompt_rules"
    by (simp add: prompt_rules_def)
  show ?thesis
    using rule_in_prompt [OF r0]
      run_download [of s k pd "file" e j svc out t r, OF assms]
    by blast
qed

text \<open>An instance with a frame that names a transaction of another account.\<close>

theorem key_rule_sent_answer_forwarded_witness:
  "\<not> chosen_share_keys edw_D journal_A recon_D
   \<and> sublist (nl @ ''- Match on Account Number, Tran Code, and Journal Date = Process Date'' @ nl) (prompt edw_D_csv journal_A_csv)
   \<and> run pandas_demo (answering (fenced csv_D)) secrets_local (Some file_D) =
       Download [(''Reconciliation'', recon_D), (''EDW'', edw_D), (''Journal'', journal_A)] all_logs"
proof -
  have a: "answering (fenced csv_D) ''sk-test'' (prompt (to_csv pandas_demo edw_D) (to_csv pandas_demo journal_A))
      = Some (Text (fenced csv_D))"
    by (simp add: answering_def)
  have c: "to_csv pandas_demo edw_D = edw_D_csv" "to_csv pandas_demo journal_A = journal_A_csv"
    by code_simp+
  have x: "\<not> chosen_share_keys edw_D journal_A recon_D" by code_simp
  show ?thesis
    using key_rule_sent_answer_forwarded [of secrets_local "''sk-test''" pandas_demo file_D edw_D journal_A
        "answering (fenced csv_D)" "fenced csv_D" csv_D recon_D,
        OF key_local sheets_demo(7,8) a extract_fenced_D read_csv_demo(5) write_demo] x
    by (simp add: c)
qed

text \<open>
  As C5 is stated, it fails on the script.
  An answer that completes the sum with T4 of account 200 for the entry of account 100
  goes to the download unchanged.
\<close>

theorem other_account_counterexample:
  "run pandas_demo (answering (fenced csv_D)) secrets_local (Some file_D) =
     Download [(''Reconciliation'', recon_D), (''EDW'', edw_D), (''Journal'', journal_A)] all_logs
   \<and> \<not> chosen_share_keys edw_D journal_A recon_D"
proof -
  have "\<not> chosen_share_keys edw_D journal_A recon_D" by code_simp
  then show ?thesis
    using run_demo [OF sheets_demo(7,8) extract_fenced_D read_csv_demo(5)] by simp
qed

subsection \<open>Rows of a result\<close>

text \<open>
  C6, as the script has it. Whenever the key of the client is found, both sheets are read,
  the service answers the prompt built from them with a text, CSV text is found in it and
  parses to a frame, and the workbook is written, then the prompt that was sent states as
  lines of their own the instructions, for each match, to create one CR row for the Journal
  entry and one or more DR rows for the matched EDW transactions, and the rule that the
  status is Matched if matched and UNMATCHED otherwise, and the run offers for download
  that very frame as the reconciliation sheet. This holds of every frame: its rows are the
  rows parsed from the answer, and no condition on them is among the conditions of the
  download.
\<close>

theorem row_rules_sent_answer_forwarded:
  assumes "openai_api_key s = Inr k"
    and "read_excel pd file ''EDW'' = Some e" and "read_excel pd file ''Journal'' = Some j"
    and "svc k (prompt (to_csv pd e) (to_csv pd j)) = Some (Text out)"
    and "extract_csv out = Inr t" and "read_csv pd t = Some r"
    and "write_excel pd [(''Reconciliation'', r), (''EDW'', e), (''Journal'', j)]"
  shows "sublist (nl @ ''- For each match:'' @ nl)
           (prompt (to_csv pd e) (to_csv pd j))
       \<and> sublist (nl @ ''  - Create one **CR row** for the Journal entry:'' @ nl)
           (prompt (to_csv pd e) (to_csv pd j))
       \<and> sublist (nl @ ''  - Create one or more **DR rows** for the matched EDW transactions:'' @ nl)
           (prompt (to_csv pd e) (to_csv pd j))
       \<and> sublist (nl @ ''- Status = Matched (if matched else UNMATCHED)'' @ nl)
           (prompt (to_csv pd e) (to_csv pd j))
       \<and> run pd svc s (Some file) =
           Download [(''Reconciliation'', r), (''EDW'', e), (''Journal'', j)] all_logs"
proof -
  have r0: "''- For each match:'' \<in> set prompt_rules"
    by (simp add: prompt_rules_def)
  have r1: "''  - Create one **CR row** for the Journal entry:'' \<in> set prompt_rules"
    by (simp add: prompt_rules_def)
  have r2: "''  - Create one or more **DR rows** for the matched EDW transactions:'' \<in> set prompt_rules"
    by (simp add: prompt_rules_def)
  have r3: "''- Status = Matched (if matched else UNMATCHED)'' \<in> set prompt_rules"
    by (simp add: prompt_rules_def)
  show ?thesis
    using rule_in_prompt [OF r0] rule_in_prompt [OF r1] rule_in_prompt [OF r2] rule_in_prompt [OF r3]
      run_download [of s k pd "file" e j svc out t r, OF assms]
    by blast
qed

text \<open>An instance with a frame that has debit rows under an unmatched entry.\<close>

theorem row_rules_sent_answer_forwarded_witness:
  "\<not> rows_per_result recon_listed
   \<and> sublist (nl @ ''- For each match:'' @ nl) (prompt edw_B_csv journal_A_csv)
   \<and> sublist (nl @ ''  - Create one **CR row** for the Journal entry:'' @ nl) (prompt edw_B_csv journal_A_csv)
   \<and> sublist (nl @ ''  - Create one or more **DR rows** for the matched EDW transactions:'' @ nl) (prompt edw_B_csv journal_A_csv)
   \<and> sublist (nl @ ''- Status = Matched (if matched else UNMATCHED)'' @ nl) (prompt edw_B_csv journal_A_csv)
   \<and> run pandas_demo (answering (fenced csv_listed)) secrets_local (Some file_B) =
       Download [(''Reconciliation'', recon_listed), (''EDW'', edw_B), (''Journal'', journal_A)] all_logs"
proof -
  have a: "answering (fenced csv_listed) ''sk-test'' (prompt (to_csv pandas_demo edw_B) (to_csv pandas_demo journal_A))
      = Some (Text (fenced csv_listed))"
    by (simp add: answering_def)
  have c: "to_csv pandas_demo edw_B = edw_B_csv" "to_csv pandas_demo journal_A = journal_A_csv"
    by code_simp+
  have x: "\<not> rows_per_result recon_listed" by code_simp
  show ?thesis
    using row_rules_sent_answer_forwarded [of secrets_local "''sk-test''" pandas_demo file_B edw_B journal_A
        "answering (fenced csv_listed)" "fenced csv_listed" csv_listed recon_listed,
        OF key_local sheets_demo(3,4) a extract_fenced_listed read_csv_demo(4) write_demo] x
    by (simp add: c)
qed

text \<open>
  As C6 is stated, it fails on the script.
  An answer that lists the two transactions adding up to 1400 as debit rows under the
  unmatched entry of 1500 goes to the download unchanged.
\<close>

theorem debit_rows_without_match_counterexample:
  "run pandas_demo (answering (fenced csv_listed)) secrets_local (Some file_B) =
     Download [(''Reconciliation'', recon_listed), (''EDW'', edw_B), (''Journal'', journal_A)] all_logs
   \<and> \<not> rows_per_result recon_listed"
proof -
  have "\<not> rows_per_result recon_listed" by code_simp
  then show ?thesis
    using run_demo [OF sheets_demo(3,4) extract_fenced_listed read_csv_demo(4)] by simp
qed

subsection \<open>Ledger entries and credit rows\<close>




subsection \<open>What stops a run\<close>

text \<open>
  C8, as the script has it. Once the key check has passed, a run on an uploaded file stops
  with its message and without a download when the EDW or the Journal sheet cannot be
  read, and equally when the call of the service fails, when no CSV text is found in the
  text of the answer and when that text does not parse. A download is offered only when
  both sheets were read, the service answered with a text, CSV text was found in it and
  parsed, and the workbook was written; the workbook then holds the parsed frame and the
  two sheets.
\<close>

theorem abort_causes:
  assumes "get_openai_api_key s = Inr k"
  shows "(read_excel pd file ''EDW'' = None \<or> read_excel pd file ''Journal'' = None
            \<longrightarrow> run pd svc s (Some file) = Halted (Stop SheetsUnreadable))
       \<and> (read_excel pd file ''EDW'' = Some e \<and> read_excel pd file ''Journal'' = Some j
            \<and> call_gpt svc s (prompt (to_csv pd e) (to_csv pd j)) = Inl err
            \<longrightarrow> run pd svc s (Some file) = Halted (Stop ApiError))
       \<and> (read_excel pd file ''EDW'' = Some e \<and> read_excel pd file ''Journal'' = Some j
            \<and> call_gpt svc s (prompt (to_csv pd e) (to_csv pd j)) = Inr (Text out)
            \<and> extract_csv out = Inl err'
            \<longrightarrow> run pd svc s (Some file) = Halted (Stop (NoCsvFound out)))
       \<and> (read_excel pd file ''EDW'' = Some e \<and> read_excel pd file ''Journal'' = Some j
            \<and> call_gpt svc s (prompt (to_csv pd e) (to_csv pd j)) = Inr (Text out)
            \<and> extract_csv out = Inr t \<and> read_csv pd t = None
            \<longrightarrow> run pd svc s (Some file) = Halted (Stop (CsvParseFailed t)))
       \<and> (run pd svc s (Some file) = Download wb logs \<longrightarrow>
            (\<exists>e j out t r. read_excel pd file ''EDW'' = Some e \<and> read_excel pd file ''Journal'' = Some j
               \<and> call_gpt svc s (prompt (to_csv pd e) (to_csv pd j)) = Inr (Text out)
               \<and> extract_csv out = Inr t \<and> read_csv pd t = Some r
               \<and> write_excel pd [(''Reconciliation'', r), (''EDW'', e), (''Journal'', j)]
               \<and> wb = [(''Reconciliation'', r), (''EDW'', e), (''Journal'', j)]))"
proof (intro conjI impI)
  assume "read_excel pd file ''EDW'' = None \<or> read_excel pd file ''Journal'' = None"
  then show "run pd svc s (Some file) = Halted (Stop SheetsUnreadable)"
    using assms by (auto simp add: run_def process_def split: option.splits)
next
  assume "read_excel pd file ''EDW'' = Some e \<and> read_excel pd file ''Journal'' = Some j
            \<and> call_gpt svc s (prompt (to_csv pd e) (to_csv pd j)) = Inl err"
  then show "run pd svc s (Some file) = Halted (Stop ApiError)"
    using assms by (auto simp add: run_def process_def call_gpt_def split: sum.splits option.splits)
next
  assume "read_excel pd file ''EDW'' = Some e \<and> read_excel pd file ''Journal'' = Some j
            \<and> call_gpt svc s (prompt (to_csv pd e) (to_csv pd j)) = Inr (Text out)
            \<and> extract_csv out = Inl err'"
  then show "run pd svc s (Some file) = Halted (Stop (NoCsvFound out))"
    using assms
    by (auto simp add: run_def process_def extract_csv_def split: sum.splits option.splits)
next
  assume "read_excel pd file ''EDW'' = Some e \<and> read_excel pd file ''Journal'' = Some j
            \<and> call_gpt svc s (prompt (to_csv pd e) (to_csv pd j)) = Inr (Text out)
            \<and> extract_csv out = Inr t \<and> read_csv pd t = None"
  then show "run pd svc s (Some file) = Halted (Stop (CsvParseFailed t))"
    using assms by (simp add: run_def process_def)
next
  assume "run pd svc s (Some file) = Download wb logs"
  then show "\<exists>e j out t r. read_excel pd file ''EDW'' = Some e \<and> read_excel pd file ''Journal'' = Some j
               \<and> call_gpt svc s (prompt (to_csv pd e) (to_csv pd j)) = Inr (Text out)
               \<and> extract_csv out = Inr t \<and> read_csv pd t = Some r
               \<and> write_excel pd [(''Reconciliation'', r), (''EDW'', e), (''Journal'', j)]
               \<and> wb = [(''Reconciliation'', r), (''EDW'', e), (''Journal'', j)]"
    using assms
    by (auto simp add: run_def process_def
        split: sum.splits option.splits content.splits if_splits)
qed

theorem abort_causes_witness:
  "get_openai_api_key secrets_local = Inr (Str ''sk-test'')
   \<and> read_excel pandas_demo file_no_journal ''Journal'' = None
   \<and> run pandas_demo (answering (fenced csv_A)) secrets_local (Some file_no_journal) =
       Halted (Stop SheetsUnreadable)
   \<and> run pandas_demo unreachable secrets_local (Some file_A) = Halted (Stop ApiError)
   \<and> run pandas_demo (answering prose_answer) secrets_local (Some file_A) =
       Halted (Stop (NoCsvFound prose_answer))
   \<and> run pandas_demo (answering (fenced csv_ragged)) secrets_local (Some file_A) =
       Halted (Stop (CsvParseFailed csv_ragged))
   \<and> run pandas_demo (answering (fenced csv_A)) secrets_local (Some file_A) =
       Download [(''Reconciliation'', recon_A), (''EDW'', edw_A), (''Journal'', journal_A)] all_logs
   \<and> write_excel pandas_demo [(''Reconciliation'', recon_A), (''EDW'', edw_A), (''Journal'', journal_A)]"
proof -
  have c1: "call_gpt unreachable secrets_local p = Inl ApiError" for p
    by (simp add: call_gpt_def key_local unreachable_def)
  have c2: "call_gpt (answering out) secrets_local p = Inr (Text out)" for out p
    by (simp add: call_gpt_def key_local answering_def)
  have 1: "run pandas_demo (answering (fenced csv_A)) secrets_local (Some file_no_journal) =
       Halted (Stop SheetsUnreadable)"
    using abort_causes [OF get_key_local, of pandas_demo file_no_journal "answering (fenced csv_A)"]
      sheets_demo(10) by blast
  have 2: "run pandas_demo unreachable secrets_local (Some file_A) = Halted (Stop ApiError)"
    using abort_causes [OF get_key_local, of pandas_demo file_A unreachable edw_A journal_A ApiError]
      sheets_A c1 by blast
  have 3: "run pandas_demo (answering prose_answer) secrets_local (Some file_A) =
       Halted (Stop (NoCsvFound prose_answer))"
    using abort_causes [OF get_key_local, of pandas_demo file_A "answering prose_answer" edw_A journal_A
        _ prose_answer "NoCsvFound prose_answer"]
      sheets_A c2 extract_prose by blast
  have 4: "run pandas_demo (answering (fenced csv_ragged)) secrets_local (Some file_A) =
       Halted (Stop (CsvParseFailed csv_ragged))"
    using abort_causes [OF get_key_local, of pandas_demo file_A "answering (fenced csv_ragged)" edw_A
        journal_A _ "fenced csv_ragged" _ csv_ragged]
      sheets_A c2 extract_fenced_ragged read_csv_demo(6) by blast
  have 5: "write_excel pandas_demo [(''Reconciliation'', recon_A), (''EDW'', edw_A), (''Journal'', journal_A)]"
    using abort_causes [OF get_key_local, of pandas_demo file_A "answering (fenced csv_A)" _ _ _ _ _ _
        "[(''Reconciliation'', recon_A), (''EDW'', edw_A), (''Journal'', journal_A)]" all_logs,
        THEN conjunct2, THEN conjunct2, THEN conjunct2, THEN conjunct2]
      run_A by auto
  show ?thesis
    using 1 2 3 4 5 run_A get_key_local sheets_demo(10) by blast
qed

text \<open>
  As C8 is stated, it fails on the script.
  Both sheets of the upload are read, and the run still stops, at the call of the service.
\<close>

theorem service_failure_counterexample:
  "read_excel pandas_demo file_A ''EDW'' = Some edw_A
   \<and> read_excel pandas_demo file_A ''Journal'' = Some journal_A
   \<and> run pandas_demo unreachable secrets_local (Some file_A) = Halted (Stop ApiError)"
  by (simp add: sheets_A run_def get_key_local process_def call_gpt_def key_local unreachable_def)

subsection \<open>Which cover is chosen\<close>





end
